theory Spec2Isabelle
  imports Main "HOL-Library.Word" "HOL-Library.Char_ord" "HOL-Library.List_Lexorder"
begin

section \<open>Strings and the formatter (core/formatter/formatter.go)\<close>

text \<open>
  Go strings are byte sequences, so they are modelled as \<open>string\<close> (a list of 8-bit
  characters); a character outside ASCII is the bytes of its UTF-8 encoding. A Go error
  value is abstracted to its message. A run-time panic is a value of its own: it is not
  an error the caller receives, it unwinds the caller.
\<close>

datatype go_error = GoError string
datatype panic = IndexOutOfRange

text \<open>
  \<open>strings.Split\<close> with a one-byte separator and \<open>strings.Join\<close>. Split returns one
  more piece than there are separators, so at least one.
\<close>

fun strings_Split :: "char \<Rightarrow> string \<Rightarrow> string list" where
  "strings_Split sep [] = [[]]"
| "strings_Split sep (c # cs) =
     (if c = sep then [] # strings_Split sep cs
      else (case strings_Split sep cs of [] \<Rightarrow> [[c]] | w # ws \<Rightarrow> (c # w) # ws))"

fun strings_Join :: "string list \<Rightarrow> string \<Rightarrow> string" where
  "strings_Join [] sep = []"
| "strings_Join [x] sep = x"
| "strings_Join (x # y # ys) sep = x @ sep @ strings_Join (y # ys) sep"

text \<open>The decimal digits of a number, as fmt prints an integer.\<close>

definition digit :: "nat \<Rightarrow> char" where
  "digit d = char_of (of_char CHR ''0'' + d)"

fun decimal :: "nat \<Rightarrow> string" where
  "decimal n = (if n < 10 then [digit n] else decimal (n div 10) @ [digit (n mod 10)])"

text \<open>
  A \<open>range\<close> loop over a string yields, for each UTF-8 sequence, the byte index where it
  starts and its code point. A byte below 128 is its own code point; otherwise the
  run-time decodes a sequence of two, three or four bytes, and an invalid or
  incomplete sequence yields the replacement code point 65533 and advances one byte.
\<close>

definition RuneError :: nat where
  "RuneError = 65533"

definition continuation_byte :: "nat \<Rightarrow> bool" where
  "continuation_byte b = (128 \<le> b \<and> b \<le> 191)"

definition decoderune :: "nat list \<Rightarrow> nat \<times> nat" where
  "decoderune s =
     (case s of
        [] \<Rightarrow> (RuneError, 1)
      | s0 # t0 \<Rightarrow>
          if 192 \<le> s0 \<and> s0 < 224 then
            (case t0 of
               s1 # _ \<Rightarrow>
                 if continuation_byte s1 \<and> 127 < (s0 mod 32) * 64 + s1 mod 64
                 then ((s0 mod 32) * 64 + s1 mod 64, 2) else (RuneError, 1)
             | _ \<Rightarrow> (RuneError, 1))
          else if 224 \<le> s0 \<and> s0 < 240 then
            (case t0 of
               s1 # s2 # _ \<Rightarrow>
                 (let r = (s0 mod 16) * 4096 + (s1 mod 64) * 64 + s2 mod 64 in
                  if continuation_byte s1 \<and> continuation_byte s2 \<and> 2047 < r \<and>
                     \<not> (55296 \<le> r \<and> r \<le> 57343)
                  then (r, 3) else (RuneError, 1))
             | _ \<Rightarrow> (RuneError, 1))
          else if 240 \<le> s0 \<and> s0 < 248 then
            (case t0 of
               s1 # s2 # s3 # _ \<Rightarrow>
                 (let r = (s0 mod 8) * 262144 + (s1 mod 64) * 4096 + (s2 mod 64) * 64
                            + s3 mod 64 in
                  if continuation_byte s1 \<and> continuation_byte s2 \<and> continuation_byte s3 \<and>
                     65535 < r \<and> r \<le> 1114111
                  then (r, 4) else (RuneError, 1))
             | _ \<Rightarrow> (RuneError, 1))
          else (RuneError, 1))"

definition next_rune :: "string \<Rightarrow> nat \<times> nat" where
  "next_rune s =
     (case s of
        [] \<Rightarrow> (RuneError, 1)
      | c # _ \<Rightarrow>
          if (of_char c :: nat) < 128 then (of_char c, 1) else decoderune (map of_char s))"

function range_string :: "nat \<Rightarrow> string \<Rightarrow> (nat \<times> nat) list" where
  "range_string k s =
     (if s = [] then []
      else (k, fst (next_rune s))
             # range_string (k + snd (next_rune s)) (drop (snd (next_rune s)) s))"
  by pat_completeness auto
termination
proof (relation "measure (\<lambda>(k, s). length s)")
  show "wf (measure (\<lambda>(k, s). length s))" by simp
next
  fix k :: nat and s :: string
  assume nonempty: "s \<noteq> []"
  have "0 < snd (decoderune bs)" for bs
    by (auto simp: decoderune_def Let_def split: list.splits)
  then have "0 < snd (next_rune s)"
    by (auto simp: next_rune_def split: list.splits)
  with nonempty show "((k + snd (next_rune s), drop (snd (next_rune s)) s), (k, s))
      \<in> measure (\<lambda>(k, s). length s)"
    by simp
qed

text \<open>
  The call of \<open>fmt.Sprintf\<close> in \<open>FormatChild\<close>: its format is a space, the
  box-drawing character U+2503 (three bytes), a space and the verb \<open>%s\<close>, and its
  argument \<open>v\<close> is a rune (an int32), not a string. The verb does not apply to an
  integer, and fmt prints \<open>%!s(int32=N)\<close> in its place.
\<close>

definition Sprintf_bar_s :: "nat \<Rightarrow> string" where
  "Sprintf_bar_s v =
     [CHR '' '', CHR 0xE2, CHR 0x94, CHR 0x83, CHR '' ''] @ ''%!s(int32='' @ decimal v @ '')''"

text \<open>
  \<open>FormatChild\<close>: the loop ranges over the string \<open>child\<close> (not over \<open>tmpData\<close>), and
  assigns \<open>tmpData[k]\<close> at each byte index \<open>k\<close> where a character starts. An index
  outside the slice panics.
\<close>

fun FormatChild_loop :: "(nat \<times> nat) list \<Rightarrow> string list \<Rightarrow> panic + string list" where
  "FormatChild_loop [] tmpData = Inr tmpData"
| "FormatChild_loop ((k, v) # kvs) tmpData =
     (if k < length tmpData then FormatChild_loop kvs (tmpData[k := Sprintf_bar_s v])
      else Inl IndexOutOfRange)"

definition FormatChild :: "string \<Rightarrow> panic + string" where
  "FormatChild child =
     (case FormatChild_loop (range_string 0 child) (strings_Split CHR 0x0A child) of
        Inl p \<Rightarrow> Inl p
      | Inr tmpData \<Rightarrow> Inr (strings_Join tmpData [CHR 0x0A]))"

text \<open>
  A value of the interface \<open>Formatable\<close> is given by what its two methods return:
  the string of \<open>ToString\<close>, and the children and the error of \<open>Iter\<close>.
\<close>

datatype formatable = Obj (ToString: string) (Iter_children: "formatable list")
  (Iter_error: "go_error option")

text \<open>
  \<open>GetStrings\<close> returns the text built so far and an error, or panics. The loop over
  the children skips a child whose call returned an error. \<open>maxDepth\<close> and
  \<open>curDepth\<close> are passed on and never read.
\<close>

fun GetStrings :: "formatable \<Rightarrow> 64 word \<Rightarrow> 64 word \<Rightarrow> panic + (string \<times> go_error option)"
  and GetStrings_loop ::
    "formatable list \<Rightarrow> 64 word \<Rightarrow> 64 word \<Rightarrow> string \<Rightarrow> panic + (string \<times> go_error option)"
  where
  "GetStrings (Obj outHead kidsHead err) maxDepth curDepth =
     (case FormatChild outHead of
        Inl p \<Rightarrow> Inl p
      | Inr outData \<Rightarrow>
          (case err of
             Some e \<Rightarrow> Inr (outData, Some e)
           | None \<Rightarrow> GetStrings_loop kidsHead maxDepth curDepth outData))"
| "GetStrings_loop [] maxDepth curDepth outData = Inr (outData, None)"
| "GetStrings_loop (v # vs) maxDepth curDepth outData =
     (case GetStrings v maxDepth (curDepth + 1) of
        Inl p \<Rightarrow> Inl p
      | Inr (cur, Some e) \<Rightarrow> GetStrings_loop vs maxDepth curDepth outData
      | Inr (cur, None) \<Rightarrow> GetStrings_loop vs maxDepth curDepth (outData @ cur))"

text \<open>
  The struct \<open>Local\<close> and its methods: one of the types of this repository that
  implement \<open>Formatable\<close>. \<open>Local_Formatable\<close> is the interface value of a \<open>Local\<close>.
  The two characters that open the second and the third line of its text are U+2520
  and U+2517.
\<close>

record Local =
  OS :: string
  Arch :: string

definition Local_ToString :: "Local \<Rightarrow> string" where
  "Local_ToString l =
     ''Local'' @ [CHR 0x0A, CHR 0xE2, CHR 0x94, CHR 0xA0] @ '' OS (string)   = '' @ OS l
       @ [CHR 0x0A, CHR 0xE2, CHR 0x94, CHR 0x97] @ '' Arch (string) = '' @ Arch l"

definition Local_Iter :: "Local \<Rightarrow> formatable list \<times> go_error option" where
  "Local_Iter l = ([], None)"

definition Local_Formatable :: "Local \<Rightarrow> formatable" where
  "Local_Formatable l = Obj (Local_ToString l) (fst (Local_Iter l)) (snd (Local_Iter l))"

section \<open>Paths (path and path/filepath of the Go library, on Unix)\<close>

text \<open>
  \<open>filepath.Clean\<close> processes the elements between separators from left to right: an
  empty element and \<open>.\<close> are dropped; \<open>..\<close> removes the element before it when that is
  not itself \<open>..\<close>, is dropped at the root of a rooted path, and is kept otherwise; any
  other element is kept. The empty result is \<open>.\<close>.
\<close>

fun Clean_elem :: "bool \<Rightarrow> string list \<Rightarrow> string \<Rightarrow> string list" where
  "Clean_elem rooted out e =
     (if e = [] \<or> e = ''.'' then out
      else if e = ''..'' then
        (if out \<noteq> [] \<and> last out \<noteq> ''..'' then butlast out
         else if rooted then out
         else out @ [''..''])
      else out @ [e])"

definition filepath_Clean :: "string \<Rightarrow> string" where
  "filepath_Clean path =
     (if path = [] then ''.''
      else
        (let rooted = (hd path = CHR ''/'');
             out = foldl (Clean_elem rooted) [] (strings_Split CHR ''/'' path)
         in if rooted then CHR ''/'' # strings_Join out ''/''
            else if out = [] then ''.''
            else strings_Join out ''/''))"

text \<open>
  \<open>filepath.Join\<close> drops the leading empty elements, joins the rest with the separator
  and cleans the result; with no non-empty element it returns the empty string.
\<close>

definition filepath_Join :: "string list \<Rightarrow> string" where
  "filepath_Join elem =
     (case dropWhile (\<lambda>e. e = []) elem of
        [] \<Rightarrow> []
      | e # es \<Rightarrow> filepath_Clean (strings_Join (e # es) ''/''))"

text \<open>\<open>filepath.Dir\<close>: the path up to and including its last separator, cleaned.\<close>

definition filepath_Dir :: "string \<Rightarrow> string" where
  "filepath_Dir path = filepath_Clean (rev (dropWhile (\<lambda>c. c \<noteq> CHR ''/'') (rev path)))"

text \<open>
  \<open>path.Base\<close>: the last element of the path, after the trailing slashes are removed;
  \<open>.\<close> for the empty path and \<open>/\<close> for a path of slashes only.
\<close>

definition path_Base :: "string \<Rightarrow> string" where
  "path_Base path =
     (if path = [] then ''.''
      else
        (let stripped = rev (dropWhile (\<lambda>c. c = CHR ''/'') (rev path));
             elem = rev (takeWhile (\<lambda>c. c \<noteq> CHR ''/'') (rev stripped))
         in if elem = [] then ''/'' else elem))"

section \<open>Remote state configuration (core/remote_state_config.go)\<close>

text \<open>
  The struct \<open>Remote\<close>. A Go map has no order of its own: what a program can observe
  is the order in which an iteration happens to deliver the entries. \<open>Config\<close> is
  therefore the list of the entries in such an order, with one entry for each key.
\<close>

record Remote =
  ID :: string
  Type :: string
  Config :: "(string \<times> string) list"

text \<open>
  The verb \<open>%v\<close> on a map prints \<open>map[k1:v1 k2:v2]\<close> with the entries sorted by key
  (fmt, since Go 1.12); strings compare byte by byte.
\<close>

definition Sprintf_v_map :: "(string \<times> string) list \<Rightarrow> string" where
  "Sprintf_v_map m =
     ''map['' @ strings_Join (map (\<lambda>(k, v). k @ '':'' @ v) (sort_key fst m)) '' '' @ '']''"

text \<open>
  \<open>Hash\<close>. \<open>xxhash.Sum64String\<close> is a function of another library and a parameter
  here.
\<close>

definition Hash :: "(string \<Rightarrow> 64 word) \<Rightarrow> Remote \<Rightarrow> 64 word" where
  "Hash Sum64String r =
     Sum64String (''id='' @ Remote.ID r @ '' type='' @ Remote.Type r @ '' config=''
                   @ Sprintf_v_map (Config r))"

section \<open>Revision records (core/revision.go)\<close>

text \<open>
  \<open>RevStatus\<close>, \<open>RevMod\<close> and \<open>LFType\<close> are declared as named string types; a record
  read back from JSON may carry any string there, so they stay strings in the model.
  \<open>time.Time\<close> is an instant; the model keeps it as a number of nanoseconds and passes
  the reading of the clock, \<open>time.Now()\<close>, as an argument.
\<close>

type_synonym RevStatus = string
type_synonym RevMod = string
type_synonym LFType = string
type_synonym Time = int

definition RevStatusUnknown :: RevStatus where "RevStatusUnknown = ''UNKNOWN''"
definition RevStatusStale :: RevStatus where "RevStatusStale = ''STALE''"
definition RevStatusActive :: RevStatus where "RevStatusActive = ''ACTIVE''"
definition RevStatusPlanned :: RevStatus where "RevStatusPlanned = ''PLANNED''"
definition RevStatusFailed :: RevStatus where "RevStatusFailed = ''FAILED''"

definition RevModTouch :: RevMod where "RevModTouch = ''TOUCH''"
definition RevModDelete :: RevMod where "RevModDelete = ''DELETE''"
definition RevModCreate :: RevMod where "RevModCreate = ''CREATE''"
definition RevModRebuild :: RevMod where "RevModRebuild = ''REBUILD''"

text \<open>
  The struct \<open>Revision\<close>. The embedded interface \<open>formatter.Formatable\<close> is never
  assigned by the source and is the nil interface; it is kept as the field
  \<open>Formatable\<close> so that the frame statements below cover it as well.
\<close>

record Revision =
  Formatable :: "formatable option"
  ID :: string
  Type :: LFType
  Status :: RevStatus
  Checksum :: "64 word"
  Timestamp :: Time
  ExternalID :: string
  Vars :: "string \<rightharpoonup> string"

text \<open>
  The methods have a pointer receiver and mutate the record in place, returning the
  same pointer. The model passes the record the receiver points to and returns the
  record found there afterwards; \<open>now\<close> is the value \<open>time.Now()\<close> returns.
\<close>

definition Touch :: "Time \<Rightarrow> Revision \<Rightarrow> Revision" where
  "Touch now r = r\<lparr>Status := RevStatusActive, Timestamp := now\<rparr>"

definition TouchWithID :: "Time \<Rightarrow> string \<Rightarrow> Revision \<Rightarrow> Revision" where
  "TouchWithID now s r = (Touch now r)\<lparr>ExternalID := s\<rparr>"

definition Taint :: "Time \<Rightarrow> Revision \<Rightarrow> Revision" where
  "Taint now r = r\<lparr>Status := RevStatusStale, Timestamp := now, Checksum := 666\<rparr>"

subsection \<open>Loading a record\<close>

text \<open>
  \<open>ParseRevisionFile\<close> calls \<open>ioutil.ReadFile\<close> and \<open>json.Unmarshal\<close>, which are
  not code of this repository: both are parameters. \<open>readFile\<close> gives the bytes of
  the file or an error; \<open>unmarshal\<close> decodes the bytes into the zero record or gives
  an error. The result is the pair the
  source returns: a pointer that is nil (\<open>None\<close>) or points to a record, and an error
  that is nil (\<open>None\<close>) or not.
\<close>



definition ParseRevisionFile ::
  "(string \<Rightarrow> go_error + string) \<Rightarrow> (string \<Rightarrow> go_error + Revision) \<Rightarrow> string
    \<Rightarrow> Revision option \<times> go_error option" where
  "ParseRevisionFile readFile unmarshal fpath =
     (case readFile fpath of
        Inl err \<Rightarrow> (None, Some err)
      | Inr data \<Rightarrow>
          (case unmarshal data of
             Inl err \<Rightarrow> (None, Some err)
           | Inr rev' \<Rightarrow> (Some rev', None)))"

subsection \<open>Storage paths\<close>

text \<open>
  The constants \<open>LFTypeEnvironment\<close>, \<open>LFTypeConnection\<close> and
  \<open>LFTypeProvisioningStep\<close> are declared in a file that is not part of the source at
  hand; their values are parameters, collected in a record. \<open>fmt.Sprintf\<close> with the
  verb \<open>%s\<close> and a string argument inserts the string.
\<close>

record LFTypes =
  LFTypeEnvironment :: LFType
  LFTypeConnection :: LFType
  LFTypeProvisioningStep :: LFType

definition Filename :: "LFTypes \<Rightarrow> Revision \<Rightarrow> string" where
  "Filename T r =
     (if Type r = LFTypeProvisioningStep T then ''.'' @ path_Base (ID r) @ ''.pstep.lfrevision''
      else ''.'' @ Type r @ ''.lfrevision'')"

definition AbsPath :: "LFTypes \<Rightarrow> string \<Rightarrow> Revision \<Rightarrow> string" where
  "AbsPath T basedir r =
     (if Type r = LFTypeEnvironment T then ''.env.lfrevision''
      else if Type r = LFTypeConnection T then
        filepath_Join [basedir, filepath_Dir (ID r), Filename T r]
      else filepath_Join [basedir, ID r, Filename T r])"

subsection \<open>Sequences of operations on one record\<close>

text \<open>
  The three mutating methods as operations, each with the reading of the clock at its
  call; \<open>run_ops\<close> lists the states a record goes through, the first state included.
  \<open>ops_guarded\<close> is the discipline under which an ACTIVE record has an external
  identifier: \<open>TouchWithID\<close> is given a non-empty identifier, and \<open>Touch\<close> is called
  on a record that has one already.
\<close>

datatype RevOp = OpTouch Time | OpTouchWithID Time string | OpTaint Time

fun apply_op :: "RevOp \<Rightarrow> Revision \<Rightarrow> Revision" where
  "apply_op (OpTouch now) r = Touch now r"
| "apply_op (OpTouchWithID now s) r = TouchWithID now s r"
| "apply_op (OpTaint now) r = Taint now r"

fun run_ops :: "RevOp list \<Rightarrow> Revision \<Rightarrow> Revision list" where
  "run_ops [] r = [r]"
| "run_ops (x # xs) r = r # run_ops xs (apply_op x r)"

fun op_guarded :: "RevOp \<Rightarrow> Revision \<Rightarrow> bool" where
  "op_guarded (OpTouch now) r = (ExternalID r \<noteq> [])"
| "op_guarded (OpTouchWithID now s) r = (s \<noteq> [])"
| "op_guarded (OpTaint now) r = True"

fun ops_guarded :: "RevOp list \<Rightarrow> Revision \<Rightarrow> bool" where
  "ops_guarded [] r = True"
| "ops_guarded (x # xs) r = (op_guarded x r \<and> ops_guarded xs (apply_op x r))"

text \<open>The zero value \<open>Revision{}\<close>: a record that no operation has touched.\<close>

definition zero_Revision :: Revision where
  "zero_Revision =
     \<lparr>Formatable = None, ID = [], Type = [], Status = [], Checksum = 0, Timestamp = 0,
      ExternalID = [], Vars = Map.empty\<rparr>"

section \<open>Properties of the record operations\<close>

text \<open>
  C3. \<open>Taint\<close> sets Status to STALE and Checksum to the sentinel 666, sets Timestamp to
  the clock's reading, and leaves ID, Type, ExternalID and Vars (and the embedded
  interface) as they were: the result is the same record with exactly these three
  fields replaced, so the record is still there.
\<close>

theorem Taint_postcondition_frame:
  "Status (Taint now r) = ''STALE'' \<and>
   Checksum (Taint now r) = 666 \<and>
   Timestamp (Taint now r) = now \<and>
   ID (Taint now r) = ID r \<and>
   Type (Taint now r) = Type r \<and>
   ExternalID (Taint now r) = ExternalID r \<and>
   Vars (Taint now r) = Vars r \<and>
   Formatable (Taint now r) = Formatable r \<and>
   Taint now r = r\<lparr>Status := RevStatusStale, Checksum := 666, Timestamp := now\<rparr>"
  by (simp add: Taint_def RevStatusStale_def)

text \<open>
  C4. \<open>Touch\<close> sets Status to ACTIVE and Timestamp to the clock's reading and changes
  no other field: ID, Type, Checksum, ExternalID and Vars are the same before and after.
\<close>

theorem Touch_frame:
  "Status (Touch now r) = ''ACTIVE'' \<and>
   Timestamp (Touch now r) = now \<and>
   ID (Touch now r) = ID r \<and>
   Type (Touch now r) = Type r \<and>
   Checksum (Touch now r) = Checksum r \<and>
   ExternalID (Touch now r) = ExternalID r \<and>
   Vars (Touch now r) = Vars r \<and>
   Formatable (Touch now r) = Formatable r \<and>
   Touch now r = r\<lparr>Status := RevStatusActive, Timestamp := now\<rparr>"
  by (simp add: Touch_def RevStatusActive_def)

text \<open>
  C5. \<open>TouchWithID r s\<close> is \<open>Touch r\<close> followed by the assignment of \<open>s\<close> to
  ExternalID: afterwards Status is ACTIVE, ExternalID is \<open>s\<close>, Timestamp is the
  clock's reading, and ID, Type, Checksum and Vars are unchanged.
\<close>

theorem TouchWithID_postcondition:
  "TouchWithID now s r = (Touch now r)\<lparr>ExternalID := s\<rparr> \<and>
   Status (TouchWithID now s r) = ''ACTIVE'' \<and>
   ExternalID (TouchWithID now s r) = s \<and>
   Timestamp (TouchWithID now s r) = now \<and>
   ID (TouchWithID now s r) = ID r \<and>
   Type (TouchWithID now s r) = Type r \<and>
   Checksum (TouchWithID now s r) = Checksum r \<and>
   Vars (TouchWithID now s r) = Vars r \<and>
   Formatable (TouchWithID now s r) = Formatable r"
  by (simp add: TouchWithID_def Touch_def RevStatusActive_def)


text \<open>
  C8. \<open>ParseRevisionFile\<close> returns a record exactly when it returns no error. A file
  that cannot be read, and content that cannot be decoded, give the error and no
  record; a file that is read and decoded gives the record and no error. No branch
  panics.
\<close>

theorem ParseRevisionFile_record_iff_no_error:
  "(fst (ParseRevisionFile readFile unmarshal fpath) \<noteq> None
      \<longleftrightarrow> snd (ParseRevisionFile readFile unmarshal fpath) = None) \<and>
   (\<forall>e. readFile fpath = Inl e
      \<longrightarrow> ParseRevisionFile readFile unmarshal fpath = (None, Some e)) \<and>
   (\<forall>d e. readFile fpath = Inr d \<and> unmarshal d = Inl e
      \<longrightarrow> ParseRevisionFile readFile unmarshal fpath = (None, Some e)) \<and>
   (\<forall>d v. readFile fpath = Inr d \<and> unmarshal d = Inr v
      \<longrightarrow> ParseRevisionFile readFile unmarshal fpath = (Some v, None))"
  by (auto simp: ParseRevisionFile_def split: sum.splits)

theorem ParseRevisionFile_record_iff_no_error_witness:
  "ParseRevisionFile
     (\<lambda>p. if p = ''a/.host.lfrevision'' then Inr ''{'' else Inl (GoError ''no such file''))
     (\<lambda>d. if d = ''{}'' then Inr zero_Revision
          else Inl (GoError ''unexpected end of JSON input''))
     ''a/.host.lfrevision''
   = (None, Some (GoError ''unexpected end of JSON input''))"
  using ParseRevisionFile_record_iff_no_error
    [where readFile = "\<lambda>p. if p = ''a/.host.lfrevision'' then Inr ''{''
                               else Inl (GoError ''no such file'')"
       and fpath = "''a/.host.lfrevision''"
       and unmarshal = "\<lambda>d. if d = ''{}'' then Inr zero_Revision
                                else Inl (GoError ''unexpected end of JSON input'')"]
  by simp

section \<open>The external identifier along a run of operations\<close>

lemma apply_op_keeps_external_id:
  "op_guarded x r \<Longrightarrow> ExternalID r \<noteq> [] \<Longrightarrow> ExternalID (apply_op x r) \<noteq> []"
  by (cases x) (simp_all add: Touch_def TouchWithID_def Taint_def)

lemma apply_op_active_has_external_id:
  "op_guarded x r \<Longrightarrow> Status (apply_op x r) = RevStatusActive
     \<Longrightarrow> ExternalID (apply_op x r) \<noteq> []"
  by (cases x)
     (simp_all add: Touch_def TouchWithID_def Taint_def RevStatusActive_def RevStatusStale_def)

lemma run_ops_nonempty: "run_ops xs r \<noteq> []"
  by (cases xs) simp_all

lemma run_ops_keeps_external_id:
  "ops_guarded xs r \<Longrightarrow> ExternalID r \<noteq> [] \<Longrightarrow> s \<in> set (run_ops xs r) \<Longrightarrow> ExternalID s \<noteq> []"
proof (induction xs arbitrary: r)
  case Nil
  then show ?case by simp
next
  case (Cons x xs)
  from Cons.prems(3) consider "s = r" | "s \<in> set (run_ops xs (apply_op x r))"
    by auto
  then show ?case
  proof cases
    case 1
    with Cons.prems(2) show ?thesis by simp
  next
    case 2
    from Cons.prems have "ExternalID (apply_op x r) \<noteq> []"
      by (simp add: apply_op_keeps_external_id)
    with Cons.IH [of "apply_op x r"] Cons.prems(1) 2 show ?thesis by simp
  qed
qed

lemma run_ops_active_has_external_id:
  "ops_guarded xs r \<Longrightarrow> (Status r = RevStatusActive \<longrightarrow> ExternalID r \<noteq> [])
     \<Longrightarrow> s \<in> set (run_ops xs r) \<Longrightarrow> Status s = RevStatusActive \<Longrightarrow> ExternalID s \<noteq> []"
proof (induction xs arbitrary: r)
  case Nil
  then show ?case by simp
next
  case (Cons x xs)
  from Cons.prems(3) consider "s = r" | "s \<in> set (run_ops xs (apply_op x r))"
    by auto
  then show ?case
  proof cases
    case 1
    with Cons.prems show ?thesis by simp
  next
    case 2
    from Cons.prems(1)
    have "Status (apply_op x r) = RevStatusActive \<longrightarrow> ExternalID (apply_op x r) \<noteq> []"
      by (simp add: apply_op_active_has_external_id)
    with Cons.IH [of "apply_op x r"] Cons.prems(1,4) 2 show ?thesis by simp
  qed
qed

lemma run_ops_empty_final_never_active:
  "ops_guarded xs r \<Longrightarrow> (Status r = RevStatusActive \<longrightarrow> ExternalID r \<noteq> [])
     \<Longrightarrow> ExternalID (last (run_ops xs r)) = [] \<Longrightarrow> s \<in> set (run_ops xs r)
     \<Longrightarrow> Status s \<noteq> RevStatusActive"
proof (induction xs arbitrary: r)
  case Nil
  then show ?case by auto
next
  case (Cons x xs)
  have final: "ExternalID (last (run_ops xs (apply_op x r))) = []"
    using Cons.prems(3) by (simp add: run_ops_nonempty)
  from Cons.prems(4) consider "s = r" | "s \<in> set (run_ops xs (apply_op x r))"
    by auto
  then show ?case
  proof cases
    case 1
    have "last (run_ops (x # xs) r) \<in> set (run_ops (x # xs) r)"
      using run_ops_nonempty last_in_set by blast
    with Cons.prems(1,3) have "ExternalID r = []"
      using run_ops_keeps_external_id by blast
    with Cons.prems(2) 1 show ?thesis by auto
  next
    case 2
    from Cons.prems(1)
    have "Status (apply_op x r) = RevStatusActive \<longrightarrow> ExternalID (apply_op x r) \<noteq> []"
      by (simp add: apply_op_active_has_external_id)
    with Cons.IH [of "apply_op x r"] Cons.prems(1) final 2 show ?thesis by simp
  qed
qed

text \<open>
  C6, as the claim states it, fails: \<open>Touch\<close> on a record that no operation has touched
  sets Status to ACTIVE and leaves ExternalID empty.
\<close>

theorem external_id_invariant_counterexample:
  "Status (last (run_ops [OpTouch 1] zero_Revision)) = ''ACTIVE'' \<and>
   ExternalID (last (run_ops [OpTouch 1] zero_Revision)) = ''''"
  by (simp add: Touch_def zero_Revision_def RevStatusActive_def)

text \<open>
  C6, amended. Along every run of Touch, TouchWithID and Taint that starts from a
  record which is not ACTIVE with an empty ExternalID, and in which TouchWithID is
  given a non-empty identifier and Touch is called only on a record whose ExternalID
  is non-empty, every state with Status ACTIVE has a non-empty ExternalID; and when
  the record ends with an empty ExternalID, no state of the run was ACTIVE.
\<close>

theorem external_id_invariant_guarded:
  assumes "ops_guarded xs r"
    and "Status r = RevStatusActive \<longrightarrow> ExternalID r \<noteq> []"
  shows "(\<forall>s \<in> set (run_ops xs r). Status s = RevStatusActive \<longrightarrow> ExternalID s \<noteq> []) \<and>
         (ExternalID (last (run_ops xs r)) = []
            \<longrightarrow> (\<forall>s \<in> set (run_ops xs r). Status s \<noteq> RevStatusActive))"
  using assms run_ops_active_has_external_id run_ops_empty_final_never_active by blast

theorem external_id_invariant_guarded_witness:
  "ops_guarded [OpTaint 1, OpTouchWithID 2 ''i-0abc'', OpTouch 3] zero_Revision \<and>
   map Status (run_ops [OpTaint 1, OpTouchWithID 2 ''i-0abc'', OpTouch 3] zero_Revision)
     = ['''', ''STALE'', ''ACTIVE'', ''ACTIVE''] \<and>
   map ExternalID (run_ops [OpTaint 1, OpTouchWithID 2 ''i-0abc'', OpTouch 3] zero_Revision)
     = ['''', '''', ''i-0abc'', ''i-0abc''] \<and>
   (\<forall>s \<in> set (run_ops [OpTaint 1, OpTouchWithID 2 ''i-0abc'', OpTouch 3] zero_Revision).
      Status s = RevStatusActive \<longrightarrow> ExternalID s \<noteq> [])"
proof -
  have g: "ops_guarded [OpTaint 1, OpTouchWithID 2 ''i-0abc'', OpTouch 3] zero_Revision"
    by (simp add: Touch_def TouchWithID_def Taint_def zero_Revision_def)
  have z: "Status zero_Revision = RevStatusActive \<longrightarrow> ExternalID zero_Revision \<noteq> []"
    by (simp add: zero_Revision_def RevStatusActive_def)
  have "map Status (run_ops [OpTaint 1, OpTouchWithID 2 ''i-0abc'', OpTouch 3] zero_Revision)
          = ['''', ''STALE'', ''ACTIVE'', ''ACTIVE'']"
    by (simp add: Touch_def TouchWithID_def Taint_def zero_Revision_def RevStatusActive_def
        RevStatusStale_def)
  moreover
  have "map ExternalID (run_ops [OpTaint 1, OpTouchWithID 2 ''i-0abc'', OpTouch 3] zero_Revision)
          = ['''', '''', ''i-0abc'', ''i-0abc'']"
    by (simp add: Touch_def TouchWithID_def Taint_def zero_Revision_def)
  ultimately show ?thesis
    using g external_id_invariant_guarded [OF g z] by blast
qed

section \<open>The formatter on the text of a node\<close>

text \<open>
  C10. \<open>FormatChild\<close> does not return on every string: on the two-byte string \<open>ab\<close>
  the slice of lines has one element, the loop reaches the byte index 1 and the
  assignment to \<open>tmpData[1]\<close> panics. \<open>GetStrings\<close> on a \<open>Local\<close> formats the text of
  \<open>ToString\<close>, three lines of more than three bytes, and panics the same way.
\<close>

theorem FormatChild_index_out_of_range:
  "FormatChild ''ab'' = Inl IndexOutOfRange"
  by code_simp

end
